theory Spec2Isabelle
  imports Complex_Main "HOL-Library.AList"
begin

section \<open>The market simulator of \<^verbatim>\<open>market_simulator.py\<close>\<close>

text \<open>
  The class \<^verbatim>\<open>Market\<close> owns a dictionary from symbols to prices and offers two readers
  (\<^verbatim>\<open>get_price\<close>, \<^verbatim>\<open>get_snapshot\<close>) and two writers (\<^verbatim>\<open>simulate_movement\<close>,
  \<^verbatim>\<open>update_prices\<close>).

  Modelling decisions.
  \<^item> A Python \<^verbatim>\<open>dict\<close> keeps its keys in insertion order; it is an association list,
    read with \<open>map_of\<close> and written with \<open>AList.update\<close>, which overwrites the value of
    a key in place and appends a key that is new, as \<^verbatim>\<open>d[k] = v\<close> does.
  \<^item> Prices are Python floats. They are idealised here as exact rationals: every
    product and sum is the exact one, and \<^verbatim>\<open>round(x, 2)\<close> is rounding of the exact value
    to the nearest multiple of \<open>1/100\<close>, ties to the even neighbour. Binary rounding
    error of the float operations is not part of the model; the properties below equate
    a result with the expression the code evaluates for it and bound no distance between
    two prices.
  \<^item> The module \<^verbatim>\<open>random\<close> is a hidden global generator. Its draws are arguments of the
    model: the outcome of \<^verbatim>\<open>random.choice([-0.01, 0.01])\<close> is a \<open>bool\<close> (which of the two
    elements was picked). \<^verbatim>\<open>random.uniform(a, b)\<close> is \<^verbatim>\<open>a + (b - a) * random()\<close>, and
    \<^verbatim>\<open>random()\<close> is a 53-bit integer of the generator divided by \<open>2 ^ 53\<close>, a number in
    \<open>[0, 1)\<close>; the integers of successive calls are a sequence \<open>nat \<Rightarrow> int\<close>, read in
    the order of the loop and taken modulo \<open>2 ^ 53\<close>.
  \<^item> The mapping that \<^verbatim>\<open>get_snapshot\<close> returns sends a symbol to the one-entry dictionary
    \<^verbatim>\<open>{'price': v}\<close>; the model keeps the number \<open>v\<close> for it.
  \<^item> Every method takes the object and returns it again next to its result, so that what
    a method leaves alone is a statement about its output.
  \<^item> \<^verbatim>\<open>d.get(k, default)\<close> cannot raise; the subscript \<^verbatim>\<open>d[k]\<close> read by the augmented
    assignment of \<^verbatim>\<open>update_prices\<close> raises \<^verbatim>\<open>KeyError\<close> on a missing key, which is a
    branch of the model.
\<close>

subsection \<open>Dictionaries and numbers\<close>

type_synonym symbol = string
type_synonym ('k, 'v) dict = "('k \<times> 'v) list"

datatype py_error = KeyError

definition keys :: "('k, 'v) dict \<Rightarrow> 'k list" where
  "keys d = map fst d"

definition dict_get :: "('k, 'v) dict \<Rightarrow> 'k \<Rightarrow> 'v \<Rightarrow> 'v" where
  "dict_get d k dflt = (case map_of d k of None \<Rightarrow> dflt | Some v \<Rightarrow> v)"

definition getitem :: "('k, 'v) dict \<Rightarrow> 'k \<Rightarrow> py_error + 'v" where
  "getitem d k = (case map_of d k of None \<Rightarrow> Inl KeyError | Some v \<Rightarrow> Inr v)"

definition setitem :: "('k, 'v) dict \<Rightarrow> 'k \<Rightarrow> 'v \<Rightarrow> ('k, 'v) dict" where
  "setitem d k v = AList.update k v d"

definition round_half_even :: "rat \<Rightarrow> int" where
  "round_half_even x =
     (let f = \<lfloor>x\<rfloor>; r = x - of_int f
      in if r < 1 / 2 then f
         else if 1 / 2 < r then f + 1
         else if even f then f else f + 1)"

definition round2 :: "rat \<Rightarrow> rat" where
  "round2 x = of_int (round_half_even (x * 100)) / 100"

text \<open>
  The standard library's generator: \<^verbatim>\<open>random()\<close> returns \<open>k / 2 ^ 53\<close> for a 53-bit integer
  \<open>k\<close>, and \<^verbatim>\<open>uniform(a, b)\<close> returns \<^verbatim>\<open>a + (b - a) * random()\<close>.
\<close>

definition random_unit :: "int \<Rightarrow> rat" where
  "random_unit k = of_int (k mod 2 ^ 53) / 2 ^ 53"

definition uniform :: "rat \<Rightarrow> rat \<Rightarrow> int \<Rightarrow> rat" where
  "uniform a b k = a + (b - a) * random_unit k"

subsection \<open>The class\<close>

record market =
  use_yfinance :: bool
  prices :: "(symbol, rat) dict"

definition init :: "bool \<Rightarrow> market" where
  "init yf =
     \<lparr> use_yfinance = yf,
       prices =
         [(''AAPL'', 180), (''TSLA'', 250), (''INFY'', 1600), (''TCS'', 3700),
          (''RELI'', 2900), (''BTC'', 65000), (''ETH'', 3500), (''DOGE'', 15 / 100)] \<rparr>"

type_synonym snapshot = "(symbol, rat) dict"

fun snapshot_loop :: "(symbol, rat) dict \<Rightarrow> symbol list \<Rightarrow> snapshot \<Rightarrow> snapshot" where
  "snapshot_loop ps [] snap = snap"
| "snapshot_loop ps (s # ss) snap =
     (let price = dict_get ps s 100
      in snapshot_loop ps ss (setitem snap s (round2 price)))"

definition get_snapshot :: "symbol list \<Rightarrow> market \<Rightarrow> snapshot \<times> market" where
  "get_snapshot symbols m = (snapshot_loop (prices m) symbols [], m)"

definition simulate_movement :: "bool \<Rightarrow> symbol \<Rightarrow> market \<Rightarrow> (rat \<times> rat) \<times> market" where
  "simulate_movement up s m =
     (let price = dict_get (prices m) s 100;
          movement = (if up then 1 / 100 else - (1 / 100));
          new_price = price * (1 + movement)
      in ((round2 new_price, movement), m\<lparr>prices := setitem (prices m) s new_price\<rparr>))"

fun update_loop ::
  "(nat \<Rightarrow> int) \<Rightarrow> nat \<Rightarrow> symbol list \<Rightarrow> (symbol, rat) dict
     \<Rightarrow> py_error + (symbol, rat) dict" where
  "update_loop u i [] ps = Inr ps"
| "update_loop u i (s # ss) ps =
     (let movement = uniform (- (2 / 100)) (2 / 100) (u i)
      in case getitem ps s of
           Inl e \<Rightarrow> Inl e
         | Inr p \<Rightarrow>
             (let ps1 = setitem ps s (p * (1 + movement))
              in case getitem ps1 s of
                   Inl e \<Rightarrow> Inl e
                 | Inr p1 \<Rightarrow> update_loop u (Suc i) ss (setitem ps1 s (round2 p1))))"

definition update_prices :: "(nat \<Rightarrow> int) \<Rightarrow> market \<Rightarrow> py_error + market" where
  "update_prices u m =
     (case update_loop u 0 (keys (prices m)) (prices m) of
        Inl e \<Rightarrow> Inl e
      | Inr ps \<Rightarrow> Inr (m\<lparr>prices := ps\<rparr>))"

definition get_price :: "symbol \<Rightarrow> market \<Rightarrow> rat \<times> market" where
  "get_price s m = (dict_get (prices m) s 100, m)"

subsection \<open>Callers\<close>

text \<open>
  The application holds one \<^verbatim>\<open>Market\<close> object and calls its methods one after the other.
  A \<open>call\<close> is one such invocation together with the random draws it consumes; \<open>run\<close>
  performs a sequence of them on the object and stops at the first exception.
\<close>

datatype call =
    GetPrice symbol
  | GetSnapshot "symbol list"
  | SimulateMovement bool symbol
  | UpdatePrices "nat \<Rightarrow> int"

fun exec :: "call \<Rightarrow> market \<Rightarrow> py_error + market" where
  "exec (GetPrice s) m = Inr (snd (get_price s m))"
| "exec (GetSnapshot ss) m = Inr (snd (get_snapshot ss m))"
| "exec (SimulateMovement up s) m = Inr (snd (simulate_movement up s m))"
| "exec (UpdatePrices u) m = update_prices u m"

fun run :: "call list \<Rightarrow> market \<Rightarrow> py_error + market" where
  "run [] m = Inr m"
| "run (c # cs) m = (case exec c m of Inl e \<Rightarrow> Inl e | Inr m' \<Rightarrow> run cs m')"

text \<open>A generator whose every draw is the same integer.\<close>

definition const_draws :: "int \<Rightarrow> nat \<Rightarrow> int" where
  "const_draws k i = k"

section \<open>Properties\<close>

subsection \<open>Dictionary facts\<close>

lemma map_of_setitem: "map_of (setitem d k v) = (map_of d)(k \<mapsto> v)"
  by (simp add: setitem_def update_conv')

lemma keys_setitem:
  "keys (setitem d k v) = (if k \<in> set (keys d) then keys d else keys d @ [k])"
  by (simp add: setitem_def keys_def update_keys)

lemma keys_iff_map_of: "k \<in> set (keys d) \<longleftrightarrow> map_of d k \<noteq> None"
  by (simp add: keys_def map_of_eq_None_iff)

lemma dict_get_absent: "k \<notin> set (keys d) \<Longrightarrow> dict_get d k dflt = dflt"
  by (simp add: dict_get_def keys_iff_map_of)

lemma dict_get_setitem_same: "dict_get (setitem d k v) k dflt = v"
  by (simp add: dict_get_def map_of_setitem)

lemma getitem_setitem_same: "getitem (setitem d k v) k = Inr v"
  by (simp add: getitem_def map_of_setitem)

lemma getitem_present:
  "k \<in> set (keys d) \<Longrightarrow> \<exists>v. getitem d k = Inr v \<and> map_of d k = Some v"
  by (auto simp: getitem_def keys_iff_map_of)

lemma round2_hundred: "round2 100 = 100"
  by (simp add: round2_def round_half_even_def)

subsection \<open>What \<^verbatim>\<open>simulate_movement\<close> stores\<close>

text \<open>
  C1, as stated: \<^verbatim>\<open>simulate_movement(s)\<close> stores the rounded new price, the value it
  returns first. It fails on the seed table for \<^verbatim>\<open>DOGE\<close> with the step \<open>+0.01\<close>: the
  table receives \<open>0.15 * 1.01 = 0.1515\<close>, the call returns \<open>0.15\<close>.
\<close>

theorem simulate_movement_stores_rounded_counterexample:
  "map_of (prices (snd (simulate_movement True ''DOGE'' (init False)))) ''DOGE''
     \<noteq> Some (fst (fst (simulate_movement True ''DOGE'' (init False))))"
  by code_simp

text \<open>
  C1, amended: \<^verbatim>\<open>simulate_movement(s)\<close> stores for \<open>s\<close> the unrounded product of the
  current price (the fallback for an unseen symbol) and one plus the step; the first
  component of its result is that stored value rounded to 2 decimals.
\<close>

theorem simulate_movement_stores_unrounded:
  "map_of (prices (snd (simulate_movement up s m))) s
     = Some (fst (get_price s m) * (1 + snd (fst (simulate_movement up s m))))
   \<and> fst (fst (simulate_movement up s m))
     = round2 (fst (get_price s m) * (1 + snd (fst (simulate_movement up s m))))"
  by (simp add: simulate_movement_def get_price_def Let_def map_of_setitem)

subsection \<open>Queries and the key set\<close>

text \<open>
  C2, as stated: after the first query of \<open>s\<close> the symbol is a key of the table. It fails
  for \<^verbatim>\<open>ZZZ\<close> on the seed table, for \<^verbatim>\<open>get_price\<close> and for \<^verbatim>\<open>get_snapshot\<close>.
\<close>

theorem query_adds_key_counterexample:
  "''ZZZ'' \<notin> set (keys (prices (snd (get_price ''ZZZ'' (init False)))))
   \<and> ''ZZZ'' \<notin> set (keys (prices (snd (get_snapshot [''ZZZ''] (init False)))))"
  by code_simp

text \<open>
  C2, amended: a query of any symbol \<open>s\<close> by \<^verbatim>\<open>get_price(s)\<close> or \<^verbatim>\<open>get_snapshot([s])\<close>
  leaves the keys of the table as they were; for a symbol that is not a key both answer
  with the fallback price 100.0. The lookup is total, the table stays partial.
\<close>

theorem query_total_table_partial:
  "keys (prices (snd (get_price s m))) = keys (prices m)
   \<and> keys (prices (snd (get_snapshot [s] m))) = keys (prices m)
   \<and> (s \<notin> set (keys (prices m)) \<longrightarrow>
        fst (get_price s m) = 100 \<and> map_of (fst (get_snapshot [s] m)) s = Some 100)"
  by (simp add: get_price_def get_snapshot_def map_of_setitem dict_get_absent round2_hundred)

theorem query_total_table_partial_witness:
  "''ZZZ'' \<notin> set (keys (prices (init False)))
   \<and> fst (get_price ''ZZZ'' (init False)) = 100
   \<and> map_of (fst (get_snapshot [''ZZZ''] (init False))) ''ZZZ'' = Some 100
   \<and> keys (prices (snd (get_price ''ZZZ'' (init False)))) = keys (prices (init False))"
proof -
  have h: "''ZZZ'' \<notin> set (keys (prices (init False)))"
    by (simp add: init_def keys_def)
  show ?thesis
    using h query_total_table_partial [of "''ZZZ''" "init False"] by simp
qed

subsection \<open>Snapshot against single price\<close>

text \<open>
  C6: for every table and symbol \<open>s\<close>, the price that \<^verbatim>\<open>get_snapshot([s])\<close> reports for \<open>s\<close>
  is \<^verbatim>\<open>round(get_price(s), 2)\<close>, the second call made on the object the first one
  returned.
\<close>

theorem snapshot_is_rounded_price:
  "map_of (fst (get_snapshot [s] m)) s
     = Some (round2 (fst (get_price s (snd (get_snapshot [s] m)))))"
  by (simp add: get_snapshot_def get_price_def map_of_setitem)

subsection \<open>Frame\<close>

text \<open>
  C7: \<^verbatim>\<open>get_price\<close> and \<^verbatim>\<open>get_snapshot\<close> return the object unchanged, and
  \<^verbatim>\<open>simulate_movement(s)\<close> leaves the entry of every symbol other than \<open>s\<close> (and the
  flag of the object) as it was.
\<close>

theorem readers_pure_movement_local:
  "snd (get_price s m) = m
   \<and> snd (get_snapshot ss m) = m
   \<and> use_yfinance (snd (simulate_movement up s m)) = use_yfinance m
   \<and> (t \<noteq> s \<longrightarrow> map_of (prices (snd (simulate_movement up s m))) t = map_of (prices m) t)"
  by (simp add: get_price_def get_snapshot_def simulate_movement_def Let_def map_of_setitem)

theorem readers_pure_movement_local_witness:
  "''BTC'' \<noteq> ''AAPL''
   \<and> map_of (prices (snd (simulate_movement True ''AAPL'' (init False)))) ''BTC'' = Some 65000
   \<and> snd (get_snapshot [''AAPL'', ''ZZZ''] (init False)) = init False"
proof -
  have h: "''BTC'' \<noteq> ''AAPL''" by simp
  have seed: "map_of (prices (init False)) ''BTC'' = Some 65000"
    by (simp add: init_def)
  show ?thesis
    using h seed
      readers_pure_movement_local
        [of "''AAPL''" "init False" "[''AAPL'', ''ZZZ'']" True "''BTC''"]
    by simp
qed

subsection \<open>Movement followed by a snapshot\<close>

text \<open>
  C9: if \<^verbatim>\<open>simulate_movement(s)\<close> returns \<open>(p, m)\<close>, the table then holds for \<open>s\<close> a value
  whose rounding to 2 decimals is \<open>p\<close>, and \<^verbatim>\<open>get_snapshot([s])\<close> called next reports \<open>p\<close>
  for \<open>s\<close>.
\<close>

theorem movement_then_snapshot:
  "\<exists>v. map_of (prices (snd (simulate_movement up s m))) s = Some v
       \<and> fst (fst (simulate_movement up s m)) = round2 v
       \<and> map_of (fst (get_snapshot [s] (snd (simulate_movement up s m)))) s
           = Some (fst (fst (simulate_movement up s m)))"
  by (simp add: simulate_movement_def get_snapshot_def Let_def
      map_of_setitem dict_get_setitem_same)

subsection \<open>The shock and the loop of \<^verbatim>\<open>update_prices\<close>\<close>

text \<open>
  \<^verbatim>\<open>random()\<close> lies in \<open>[0, 1)\<close>, so the shock \<^verbatim>\<open>random.uniform(-0.02, 0.02)\<close> lies between
  its two arguments, whatever the generator returns.
\<close>

lemma random_unit_range: "0 \<le> random_unit k \<and> random_unit k < 1"
proof -
  have "0 \<le> k mod 2 ^ 53" and "k mod 2 ^ 53 < 2 ^ 53"
    by simp_all
  then have lo: "(0 :: rat) \<le> of_int (k mod 2 ^ 53)"
    and hi: "(of_int (k mod 2 ^ 53) :: rat) < of_int (2 ^ 53)"
    by (simp_all only: of_int_0_le_iff of_int_less_iff)
  from hi have hi': "(of_int (k mod 2 ^ 53) :: rat) < 2 ^ 53"
    by (simp only: of_int_power of_int_numeral)
  have pos: "(0 :: rat) < 2 ^ 53"
    by simp
  from lo pos have "0 \<le> (of_int (k mod 2 ^ 53) :: rat) / 2 ^ 53"
    by (intro divide_nonneg_pos)
  moreover from hi' pos have "(of_int (k mod 2 ^ 53) :: rat) / 2 ^ 53 < 1"
    by (simp only: divide_less_eq_1_pos)
  ultimately show ?thesis
    unfolding random_unit_def by (intro conjI)
qed

lemma uniform_range: "a \<le> b \<Longrightarrow> a \<le> uniform a b k \<and> uniform a b k \<le> b"
proof -
  assume ab: "a \<le> b"
  have r: "0 \<le> random_unit k" "random_unit k \<le> 1"
    using random_unit_range [of k] by simp_all
  from ab r(1) have lo: "0 \<le> (b - a) * random_unit k"
    by simp
  from ab r(2) have "(b - a) * random_unit k \<le> (b - a) * 1"
    by (intro mult_left_mono) simp_all
  with lo show ?thesis
    by (simp add: uniform_def)
qed

lemma shock_range:
  "- (2 / 100) \<le> uniform (- (2 / 100)) (2 / 100) k
   \<and> uniform (- (2 / 100)) (2 / 100) k \<le> 2 / 100"
  by (rule uniform_range) simp

text \<open>
  The loop runs over the keys the table had when it started. Each assignment hits a key
  that is present, so the keys stay and no subscript raises; with distinct keys every
  entry is rewritten once, with the draw of its own iteration.
\<close>

lemma update_loop_keys:
  "set ss \<subseteq> set (keys ps) \<Longrightarrow> \<exists>ps'. update_loop u i ss ps = Inr ps' \<and> keys ps' = keys ps"
proof (induction ss arbitrary: i ps)
  case Nil
  then show ?case by simp
next
  case (Cons s ss)
  from Cons.prems have s_in: "s \<in> set (keys ps)" and rest: "set ss \<subseteq> set (keys ps)"
    by simp_all
  from getitem_present [OF s_in] obtain p where p: "getitem ps s = Inr p"
    by blast
  let ?x = "p * (1 + uniform (- (2 / 100)) (2 / 100) (u i))"
  let ?ps2 = "setitem (setitem ps s ?x) s (round2 ?x)"
  have k2: "keys ?ps2 = keys ps"
    using s_in by (simp add: keys_setitem)
  with rest have "set ss \<subseteq> set (keys ?ps2)" by simp
  from Cons.IH [OF this, of "Suc i"] obtain ps' where
    "update_loop u (Suc i) ss ?ps2 = Inr ps'" and "keys ps' = keys ?ps2"
    by blast
  with p k2 show ?case
    by (simp add: Let_def getitem_setitem_same)
qed

lemma update_loop_values:
  "distinct ss \<Longrightarrow> set ss \<subseteq> set (keys ps) \<Longrightarrow> update_loop u i ss ps = Inr ps' \<Longrightarrow>
     (\<forall>k. k \<notin> set ss \<longrightarrow> map_of ps' k = map_of ps k)
     \<and> (\<forall>j<length ss. \<forall>p. map_of ps (ss ! j) = Some p \<longrightarrow>
           map_of ps' (ss ! j)
             = Some (round2 (p * (1 + uniform (- (2 / 100)) (2 / 100) (u (i + j))))))"
proof (induction ss arbitrary: i ps)
  case Nil
  then show ?case by simp
next
  case (Cons s ss)
  from Cons.prems have s_in: "s \<in> set (keys ps)" and rest: "set ss \<subseteq> set (keys ps)"
    and s_notin: "s \<notin> set ss" and dist: "distinct ss"
    by simp_all
  from getitem_present [OF s_in] obtain p where p: "getitem ps s = Inr p"
    and mp: "map_of ps s = Some p"
    by blast
  let ?x = "p * (1 + uniform (- (2 / 100)) (2 / 100) (u i))"
  let ?ps2 = "setitem (setitem ps s ?x) s (round2 ?x)"
  have k2: "keys ?ps2 = keys ps"
    using s_in by (simp add: keys_setitem)
  with rest have sub: "set ss \<subseteq> set (keys ?ps2)" by simp
  have run: "update_loop u (Suc i) ss ?ps2 = Inr ps'"
    using Cons.prems(3) p by (simp add: Let_def getitem_setitem_same)
  note IH = Cons.IH [OF dist sub run]
  have m2: "map_of ?ps2 = (map_of ps)(s \<mapsto> round2 ?x)"
    by (simp add: map_of_setitem)
  have other: "\<forall>k. k \<notin> set (s # ss) \<longrightarrow> map_of ps' k = map_of ps k"
    using IH m2 by simp
  have at_s: "map_of ps' s = Some (round2 ?x)"
    using IH s_notin m2 by simp
  have later: "\<forall>j<length ss. \<forall>q. map_of ps (ss ! j) = Some q \<longrightarrow>
      map_of ps' (ss ! j)
        = Some (round2 (q * (1 + uniform (- (2 / 100)) (2 / 100) (u (Suc i + j)))))"
  proof (intro allI impI)
    fix j q
    assume j: "j < length ss" and q: "map_of ps (ss ! j) = Some q"
    from j s_notin have "ss ! j \<noteq> s" by (metis nth_mem)
    with q m2 have "map_of ?ps2 (ss ! j) = Some q" by simp
    with IH j show "map_of ps' (ss ! j)
        = Some (round2 (q * (1 + uniform (- (2 / 100)) (2 / 100) (u (Suc i + j)))))"
      by blast
  qed
  show ?case
  proof (intro conjI allI impI)
    fix k assume "k \<notin> set (s # ss)"
    with other show "map_of ps' k = map_of ps k" by blast
  next
    fix j q
    assume j: "j < length (s # ss)" and q: "map_of ps ((s # ss) ! j) = Some q"
    show "map_of ps' ((s # ss) ! j)
        = Some (round2 (q * (1 + uniform (- (2 / 100)) (2 / 100) (u (i + j)))))"
    proof (cases j)
      case 0
      with q mp at_s show ?thesis by simp
    next
      case (Suc j')
      with j q later show ?thesis by simp
    qed
  qed
qed

lemma update_prices_ok:
  "\<exists>m'. update_prices u m = Inr m' \<and> keys (prices m') = keys (prices m)
        \<and> use_yfinance m' = use_yfinance m"
proof -
  have "set (keys (prices m)) \<subseteq> set (keys (prices m))" by simp
  from update_loop_keys [OF this, of u 0] obtain ps' where
    "update_loop u 0 (keys (prices m)) (prices m) = Inr ps'" and "keys ps' = keys (prices m)"
    by blast
  then show ?thesis by (simp add: update_prices_def)
qed

lemma exec_keeps_absent:
  assumes "s \<notin> set (keys (prices m))" and "\<forall>up. c \<noteq> SimulateMovement up s"
  shows "\<exists>m'. exec c m = Inr m' \<and> s \<notin> set (keys (prices m'))"
proof (cases c)
  case (GetPrice t)
  with assms show ?thesis by (simp add: get_price_def)
next
  case (GetSnapshot ts)
  with assms show ?thesis by (simp add: get_snapshot_def)
next
  case (SimulateMovement up t)
  with assms have "t \<noteq> s" by blast
  with assms SimulateMovement show ?thesis
    by (simp add: simulate_movement_def Let_def keys_setitem)
next
  case (UpdatePrices u)
  with assms update_prices_ok [of u m] show ?thesis by auto
qed

lemma run_keeps_absent:
  "s \<notin> set (keys (prices m)) \<Longrightarrow> \<forall>up. SimulateMovement up s \<notin> set cs \<Longrightarrow>
     \<exists>m'. run cs m = Inr m' \<and> s \<notin> set (keys (prices m'))"
proof (induction cs arbitrary: m)
  case Nil
  then show ?case by simp
next
  case (Cons c cs)
  from Cons.prems have "\<forall>up. c \<noteq> SimulateMovement up s"
    and rest: "\<forall>up. SimulateMovement up s \<notin> set cs"
    by auto
  from exec_keeps_absent [OF Cons.prems(1) this(1)] obtain m1 where
    m1: "exec c m = Inr m1" "s \<notin> set (keys (prices m1))"
    by blast
  from Cons.IH [OF m1(2) rest] m1(1) show ?case by simp
qed

lemma run_ok: "\<exists>m'. run cs m = Inr m'"
proof (induction cs arbitrary: m)
  case Nil
  then show ?case by simp
next
  case (Cons c cs)
  have "\<exists>m1. exec c m = Inr m1"
    using update_prices_ok [of _ m] by (cases c) auto
  then obtain m1 where "exec c m = Inr m1" ..
  with Cons.IH [of m1] show ?case by simp
qed

text \<open>
  The keys of a dictionary are distinct. For the association lists of the model this is
  an invariant of the object: it holds of the seed table and every call keeps it.
\<close>

lemma exec_distinct:
  assumes "distinct (keys (prices m))" and "exec c m = Inr m'"
  shows "distinct (keys (prices m'))"
proof (cases c)
  case (GetPrice t)
  with assms show ?thesis by (auto simp: get_price_def)
next
  case (GetSnapshot ts)
  with assms show ?thesis by (auto simp: get_snapshot_def)
next
  case (SimulateMovement up t)
  with assms show ?thesis
    by (auto simp: simulate_movement_def Let_def keys_setitem)
next
  case (UpdatePrices u)
  with assms update_prices_ok [of u m] show ?thesis by auto
qed

lemma run_distinct:
  "distinct (keys (prices m)) \<Longrightarrow> run cs m = Inr m' \<Longrightarrow> distinct (keys (prices m'))"
proof (induction cs arbitrary: m)
  case Nil
  then show ?case by simp
next
  case (Cons c cs)
  from Cons.prems(2) obtain m1 where m1: "exec c m = Inr m1" and rest: "run cs m1 = Inr m'"
    by (auto split: sum.splits)
  from exec_distinct [OF Cons.prems(1) m1] have "distinct (keys (prices m1))" .
  from Cons.IH [OF this rest] show ?case .
qed

lemma reachable_distinct:
  assumes "run cs (init yf) = Inr m'"
  shows "distinct (keys (prices m'))"
proof -
  have "distinct (keys (prices (init yf)))"
    by (simp add: init_def keys_def)
  from run_distinct [OF this assms] show ?thesis .
qed

subsection \<open>The size of a refresh\<close>

text \<open>
  C3, as stated: after \<^verbatim>\<open>update_prices()\<close> the price of a symbol differs from its price
  \<open>p\<close> before the call by at most 2% of \<open>p\<close>. It fails on a table reached from the seed
  by two upward movements of \<^verbatim>\<open>DOGE\<close>: the table holds \<open>0.153015\<close>; with \<^verbatim>\<open>random()\<close>
  returning \<open>7/8\<close> the shock is \<open>-0.02 + 0.04 * 7/8 = 0.015\<close>, which gives \<open>0.155310225\<close>,
  stored as \<open>0.16\<close>; the change \<open>0.006985\<close> is more than twice the 2% of \<open>0.153015\<close>,
  which is \<open>0.0030603\<close>.
\<close>

theorem update_prices_two_percent_counterexample:
  "map_of (prices (snd (simulate_movement True ''DOGE''
        (snd (simulate_movement True ''DOGE'' (init False)))))) ''DOGE''
     = Some (153015 / 1000000)
   \<and> uniform (- (2 / 100)) (2 / 100) (const_draws 7881299347898368 7) = 15 / 1000
   \<and> update_prices (const_draws 7881299347898368)
        (snd (simulate_movement True ''DOGE''
          (snd (simulate_movement True ''DOGE'' (init False)))))
     = Inr \<lparr> use_yfinance = False,
             prices =
               [(''AAPL'', 1827 / 10), (''TSLA'', 25375 / 100), (''INFY'', 1624),
                (''TCS'', 37555 / 10), (''RELI'', 29435 / 10), (''BTC'', 65975),
                (''ETH'', 35525 / 10), (''DOGE'', 16 / 100)] \<rparr>
   \<and> \<not> \<bar>16 / 100 - 153015 / 1000000\<bar> \<le> 2 / 100 * (153015 / 1000000 :: rat)"
  by code_simp

text \<open>
  C3, amended: for every table state and every symbol \<open>s\<close> present in the table with
  pre-call price \<open>p\<close>, \<^verbatim>\<open>update_prices()\<close> returns normally and the stored price of \<open>s\<close>
  is then \<^verbatim>\<open>round(p * (1 + m), 2)\<close>, where \<open>m\<close> is the shock that
  \<^verbatim>\<open>random.uniform(-0.02, 0.02)\<close> returned in the iteration of \<open>s\<close>, and \<open>m\<close> lies between
  \<open>-0.02\<close> and \<open>0.02\<close>: the 2% bounds the shock, and the stored price is the rounding to
  2 decimals of the shocked price. \<^verbatim>\<open>update_prices()\<close> adds no new symbol keys to the
  table: its keys and their order are unchanged. (The keys of a dictionary are distinct;
  \<open>reachable_distinct\<close> shows it of every table reached from the seed.)
\<close>

theorem update_prices_rounded_shock:
  assumes "distinct (keys (prices m))"
    and "map_of (prices m) s = Some p"
  shows "\<exists>m' j. update_prices u m = Inr m'
           \<and> keys (prices m') = keys (prices m)
           \<and> j < length (keys (prices m)) \<and> keys (prices m) ! j = s
           \<and> map_of (prices m') s
               = Some (round2 (p * (1 + uniform (- (2 / 100)) (2 / 100) (u j))))
           \<and> - (2 / 100) \<le> uniform (- (2 / 100)) (2 / 100) (u j)
           \<and> uniform (- (2 / 100)) (2 / 100) (u j) \<le> 2 / 100"
proof -
  let ?ks = "keys (prices m)"
  have sub: "set ?ks \<subseteq> set (keys (prices m))" by simp
  from update_loop_keys [OF sub, of u 0] obtain ps' where
    loop: "update_loop u 0 ?ks (prices m) = Inr ps'" and ks: "keys ps' = ?ks"
    by blast
  from assms(2) have "s \<in> set ?ks" by (simp add: keys_iff_map_of)
  then obtain j where j: "j < length ?ks" "?ks ! j = s"
    by (auto simp: in_set_conv_nth)
  from update_loop_values [OF assms(1) sub loop] j assms(2)
  have p': "map_of ps' s = Some (round2 (p * (1 + uniform (- (2 / 100)) (2 / 100) (u j))))"
    by auto
  from loop ks have "update_prices u m = Inr (m\<lparr>prices := ps'\<rparr>)"
    and "keys (prices (m\<lparr>prices := ps'\<rparr>)) = ?ks"
    by (simp_all add: update_prices_def)
  with p' j shock_range [of "u j"] show ?thesis
    by (intro exI [of _ "m\<lparr>prices := ps'\<rparr>"] exI [of _ j]) simp
qed

theorem update_prices_rounded_shock_witness:
  "distinct (keys (prices (snd (simulate_movement True ''DOGE'' (init False)))))
   \<and> map_of (prices (snd (simulate_movement True ''DOGE'' (init False)))) ''DOGE''
       = Some (1515 / 10000)
   \<and> (\<exists>m' j. update_prices (const_draws 7881299347898368)
                  (snd (simulate_movement True ''DOGE'' (init False))) = Inr m'
         \<and> keys (prices m') = keys (prices (snd (simulate_movement True ''DOGE'' (init False))))
         \<and> map_of (prices m') ''DOGE''
             = Some (round2 (1515 / 10000
                  * (1 + uniform (- (2 / 100)) (2 / 100) (const_draws 7881299347898368 j)))))"
proof -
  let ?m = "snd (simulate_movement True ''DOGE'' (init False))"
  have d: "distinct (keys (prices ?m))"
    by code_simp
  have p: "map_of (prices ?m) ''DOGE'' = Some (1515 / 10000)"
    by code_simp
  from update_prices_rounded_shock [OF d p, of "const_draws 7881299347898368"] d p
  show ?thesis
    by blast
qed

subsection \<open>Two movements from the seed\<close>

lemma seed_aapl: "dict_get (prices (init yf)) ''AAPL'' 100 = 180"
  by (simp add: init_def dict_get_def)

lemma second_step_differs:
  "round2 (180 * (1 + (if up1 then 1 / 100 else - (1 / 100)))
               * (1 + (if up2 then 1 / 100 else - (1 / 100))))
     \<noteq> round2 (180 * (1 + (if up2 then 1 / 100 else - (1 / 100))))"
proof (cases up1; cases up2)
  assume "up1" "up2"
  moreover have "round2 (180 * (1 + 1 / 100) * (1 + 1 / 100)) \<noteq> round2 (180 * (1 + 1 / 100))"
    by code_simp
  ultimately show ?thesis by simp
next
  assume "up1" "\<not> up2"
  moreover have "round2 (180 * (1 + 1 / 100) * (1 + - (1 / 100)))
      \<noteq> round2 (180 * (1 + - (1 / 100)))"
    by code_simp
  ultimately show ?thesis by simp
next
  assume "\<not> up1" "up2"
  moreover have "round2 (180 * (1 + - (1 / 100)) * (1 + 1 / 100)) \<noteq> round2 (180 * (1 + 1 / 100))"
    by code_simp
  ultimately show ?thesis by simp
next
  assume "\<not> up1" "\<not> up2"
  moreover have "round2 (180 * (1 + - (1 / 100)) * (1 + - (1 / 100)))
      \<noteq> round2 (180 * (1 + - (1 / 100)))"
    by code_simp
  ultimately show ?thesis by simp
qed

text \<open>
  C4: on the seed table, \<^verbatim>\<open>simulate_movement('AAPL')\<close> returns a step of \<open>0.01\<close> or \<open>-0.01\<close>
  and the price \<^verbatim>\<open>round(180.0 * (1 + step), 2)\<close>; the table then holds \<open>180 * (1 + step)\<close>,
  and a second call returns the rounding of that stored price times one plus its own step,
  which is never what the seed price 180.0 would have given.
\<close>

theorem movement_from_seed:
  "let r1 = simulate_movement up1 ''AAPL'' (init yf);
       r2 = simulate_movement up2 ''AAPL'' (snd r1)
   in (snd (fst r1) = 1 / 100 \<or> snd (fst r1) = - (1 / 100))
      \<and> fst (fst r1) = round2 (180 * (1 + snd (fst r1)))
      \<and> fst (get_price ''AAPL'' (snd r1)) = 180 * (1 + snd (fst r1))
      \<and> fst (fst r2) = round2 (fst (get_price ''AAPL'' (snd r1)) * (1 + snd (fst r2)))
      \<and> fst (fst r2) \<noteq> round2 (180 * (1 + snd (fst r2)))"
proof -
  let ?a = "if up1 then 1 / 100 else - (1 / 100) :: rat"
  let ?b = "if up2 then 1 / 100 else - (1 / 100) :: rat"
  have r1: "simulate_movement up1 ''AAPL'' (init yf)
      = ((round2 (180 * (1 + ?a)), ?a),
         (init yf)\<lparr>prices := setitem (prices (init yf)) ''AAPL'' (180 * (1 + ?a))\<rparr>)"
    by (simp add: simulate_movement_def Let_def seed_aapl)
  have r2: "fst (simulate_movement up2 ''AAPL''
               ((init yf)\<lparr>prices := setitem (prices (init yf)) ''AAPL'' (180 * (1 + ?a))\<rparr>))
      = (round2 (180 * (1 + ?a) * (1 + ?b)), ?b)"
    by (simp add: simulate_movement_def Let_def dict_get_setitem_same)
  have diff: "round2 (180 * (1 + ?a) * (1 + ?b)) \<noteq> round2 (180 * (1 + ?b))"
    by (rule second_step_differs)
  show ?thesis
    unfolding Let_def r1 snd_conv fst_conv r2
    using diff by (simp add: get_price_def dict_get_setitem_same)
qed

subsection \<open>The fallback price of an unseen symbol\<close>

text \<open>
  C5: let \<open>s\<close> not be a key of the table. After any sequence of calls that contains no
  \<^verbatim>\<open>simulate_movement(s)\<close>, and after every prefix of it, \<open>s\<close> is still not a key,
  \<^verbatim>\<open>get_price(s)\<close> returns 100.0 and \<^verbatim>\<open>get_snapshot([s])\<close> reports 100.0. The sequence may
  hold reads of any symbols, movements of other symbols and calls of \<^verbatim>\<open>update_prices()\<close>,
  which finds \<open>s\<close> absent and leaves it so.
\<close>

theorem fallback_persists:
  assumes "s \<notin> set (keys (prices m))"
    and "\<forall>up. SimulateMovement up s \<notin> set cs"
  shows "\<exists>m'. run (take n cs) m = Inr m'
           \<and> s \<notin> set (keys (prices m'))
           \<and> fst (get_price s m') = 100
           \<and> map_of (fst (get_snapshot [s] m')) s = Some 100"
proof -
  from assms(2) have "\<forall>up. SimulateMovement up s \<notin> set (take n cs)"
    by (meson in_set_takeD)
  from run_keeps_absent [OF assms(1) this] obtain m' where
    m': "run (take n cs) m = Inr m'" "s \<notin> set (keys (prices m'))"
    by blast
  then show ?thesis
    by (simp add: get_price_def get_snapshot_def map_of_setitem dict_get_absent round2_hundred)
qed

theorem fallback_persists_witness:
  "''ZZZ'' \<notin> set (keys (prices (init False)))
   \<and> (\<forall>up. SimulateMovement up ''ZZZ''
         \<notin> set [GetPrice ''ZZZ'', GetSnapshot [''ZZZ'', ''AAPL''], SimulateMovement True ''AAPL'',
                UpdatePrices (const_draws 4503599627370496), GetPrice ''ZZZ''])
   \<and> (\<exists>m'. run (take 5 [GetPrice ''ZZZ'', GetSnapshot [''ZZZ'', ''AAPL''],
                SimulateMovement True ''AAPL'', UpdatePrices (const_draws 4503599627370496),
                GetPrice ''ZZZ'']) (init False) = Inr m'
         \<and> fst (get_price ''ZZZ'' m') = 100)"
proof -
  let ?cs = "[GetPrice ''ZZZ'', GetSnapshot [''ZZZ'', ''AAPL''], SimulateMovement True ''AAPL'',
              UpdatePrices (const_draws 4503599627370496), GetPrice ''ZZZ'']"
  have a: "''ZZZ'' \<notin> set (keys (prices (init False)))"
    by (simp add: init_def keys_def)
  have c: "\<forall>up. SimulateMovement up ''ZZZ'' \<notin> set ?cs"
    by simp
  from fallback_persists [OF a c, of 5] a c show ?thesis
    by blast
qed

subsection \<open>No operation raises\<close>

text \<open>
  C8: every sequence of calls of the four operations, with any string symbols and any
  draws, runs to its end on every object without an exception; in particular
  \<^verbatim>\<open>update_prices()\<close> returns normally, \<^verbatim>\<open>get_snapshot\<close> of the empty sequence is the empty
  mapping, and a lookup with a default is the raising lookup with its error branch
  replaced by the default. (\<^verbatim>\<open>get_price\<close>, \<^verbatim>\<open>get_snapshot\<close> and \<^verbatim>\<open>simulate_movement\<close> have no
  error value in their result type: the source reads the table only through
  \<^verbatim>\<open>dict.get\<close> with a default there.)
\<close>

theorem operations_total:
  "(\<exists>m'. run cs m = Inr m')
   \<and> (\<exists>m'. update_prices u m = Inr m')
   \<and> get_snapshot [] m = ([], m)
   \<and> dict_get d k dflt = (case getitem d k of Inl e \<Rightarrow> dflt | Inr v \<Rightarrow> v)"
proof -
  have "\<exists>m'. update_prices u m = Inr m'"
    using update_prices_ok [of u m] by blast
  moreover have "dict_get d k dflt = (case getitem d k of Inl e \<Rightarrow> dflt | Inr v \<Rightarrow> v)"
    by (simp add: dict_get_def getitem_def split: option.split)
  ultimately show ?thesis
    using run_ok [of cs m] by (simp add: get_snapshot_def)
qed

subsection \<open>Which operation adds a key\<close>

text \<open>
  C10: for a symbol \<open>s\<close> that is not a key, \<^verbatim>\<open>simulate_movement(s)\<close> appends the key \<open>s\<close>
  with the price \<open>100.0 * (1 + m)\<close> for its step \<open>m\<close>, while after \<^verbatim>\<open>get_price(s)\<close> and
  after \<^verbatim>\<open>get_snapshot([s])\<close> the symbol is still not a key; \<^verbatim>\<open>update_prices()\<close> keeps
  the keys as they are.
\<close>

theorem only_movement_adds_key:
  assumes "s \<notin> set (keys (prices m))"
  shows "keys (prices (snd (simulate_movement up s m))) = keys (prices m) @ [s]
         \<and> map_of (prices (snd (simulate_movement up s m))) s
             = Some (100 * (1 + snd (fst (simulate_movement up s m))))
         \<and> s \<notin> set (keys (prices (snd (get_price s m))))
         \<and> s \<notin> set (keys (prices (snd (get_snapshot [s] m))))
         \<and> (\<exists>m'. update_prices u m = Inr m' \<and> keys (prices m') = keys (prices m))"
proof -
  have "\<exists>m'. update_prices u m = Inr m' \<and> keys (prices m') = keys (prices m)"
    using update_prices_ok [of u m] by blast
  with assms show ?thesis
    by (simp add: simulate_movement_def Let_def keys_setitem map_of_setitem dict_get_absent
        get_price_def get_snapshot_def)
qed

theorem only_movement_adds_key_witness:
  "''ZZZ'' \<notin> set (keys (prices (init False)))
   \<and> keys (prices (snd (simulate_movement True ''ZZZ'' (init False))))
       = keys (prices (init False)) @ [''ZZZ'']
   \<and> map_of (prices (snd (simulate_movement True ''ZZZ'' (init False)))) ''ZZZ''
       = Some (100 * (1 + snd (fst (simulate_movement True ''ZZZ'' (init False)))))
   \<and> ''ZZZ'' \<notin> set (keys (prices (snd (get_price ''ZZZ'' (init False)))))"
proof -
  have a: "''ZZZ'' \<notin> set (keys (prices (init False)))"
    by (simp add: init_def keys_def)
  from only_movement_adds_key [OF a, of True] a show ?thesis
    by blast
qed

end
